theory Spec2Isabelle
  imports Complex_Main
begin

section \<open>The API client (src/LegalAnalyser.js)\<close>

subsection \<open>JavaScript values and errors\<close>

text \<open>
  The values that \<open>JSON.parse\<close> can produce and \<open>JSON.stringify\<close> can consume. A number
  is kept as the text JavaScript renders it with (\<open>ToString\<close>, which for a finite number is
  also what \<open>JSON.stringify\<close> writes): the client only ever tests a number for truthiness
  and turns it into a string. An object is its members in insertion order.
\<close>

datatype jsval =
    JNull
  | JBool bool
  | JNum string
  | JStr string
  | JArr "jsval list"
  | JObj "(string \<times> jsval) list"

text \<open>The exceptions the client can see, each with its \<open>message\<close>.\<close>

datatype js_error = Error string | TypeError string | SyntaxError string

fun message :: "js_error \<Rightarrow> string" where
  "message (Error m) = m"
| "message (TypeError m) = m"
| "message (SyntaxError m) = m"

text \<open>
  What a promise rejects with, or a \<open>throw\<close> throws: an exception object or, from a
  \<open>fetch\<close> or a response that is not the platform's own, \<open>null\<close> or
  \<open>undefined\<close>. Other thrown values are not modelled.
\<close>

datatype thrown = Exception js_error | ThrownNull | ThrownUndefined

definition squote :: char where
  "squote = CHR 0x27"

text \<open>
  Reading \<open>e.message\<close> of a caught value: of \<open>null\<close> and of \<open>undefined\<close> it throws a
  TypeError.
\<close>

fun read_message :: "thrown \<Rightarrow> js_error + string" where
  "read_message (Exception ex) = Inr (message ex)"
| "read_message ThrownNull =
     Inl (TypeError (''Cannot read properties of null (reading '' @ [squote] @ ''message'' @ [squote] @ '')''))"
| "read_message ThrownUndefined =
     Inl (TypeError (''Cannot read properties of undefined (reading '' @ [squote] @ ''message''
                       @ [squote] @ '')''))"

definition join :: "string \<Rightarrow> string list \<Rightarrow> string" where
  "join sep xs = concat (case xs of [] \<Rightarrow> [] | y # ys \<Rightarrow> y # map (\<lambda>z. sep @ z) ys)"

text \<open>
  \<open>ToString\<close>, as \<open>new Error(v)\<close> applies it to its argument. An array joins its
  elements, \<open>null\<close> as the empty string. A parsed object is \<open>[object Object]\<close>, unless it
  has a member \<open>toString\<close> of its own: that member is not callable, the inherited
  \<open>valueOf\<close> gives back the object, and the conversion throws a TypeError.
\<close>

fun ToString :: "jsval \<Rightarrow> js_error + string" where
  "ToString JNull = Inr ''null''"
| "ToString (JBool b) = Inr (if b then ''true'' else ''false'')"
| "ToString (JNum s) = Inr s"
| "ToString (JStr s) = Inr s"
| "ToString (JArr xs) =
     (let rs = map (\<lambda>x. if x = JNull then Inr [] else ToString x) xs
      in case filter isl rs of
           r # _ \<Rightarrow> Inl (projl r)
         | [] \<Rightarrow> Inr (join '','' (map projr rs)))"
| "ToString (JObj fs) =
     (if ''toString'' \<in> fst ` set fs then Inl (TypeError ''Cannot convert object to primitive value'')
      else Inr ''[object Object]'')"

text \<open>\<open>ToBoolean\<close>, as \<open>||\<close> applies it to its left operand. \<open>-0\<close> renders as \<open>0\<close>.\<close>

fun truthy :: "jsval \<Rightarrow> bool" where
  "truthy JNull = False"
| "truthy (JBool b) = b"
| "truthy (JNum s) = (s \<noteq> ''0'' \<and> s \<noteq> ''NaN'')"
| "truthy (JStr s) = (s \<noteq> [])"
| "truthy (JArr xs) = True"
| "truthy (JObj fs) = True"

text \<open>
  Reading a property \<open>v.k\<close>: \<open>Inr None\<close> is \<open>undefined\<close>; reading a property of \<open>null\<close>
  throws a TypeError (the wording is the engine's).
\<close>

fun get_property :: "jsval \<Rightarrow> string \<Rightarrow> js_error + jsval option" where
  "get_property JNull k =
     Inl (TypeError (''Cannot read properties of null (reading '' @ [squote] @ k @ [squote] @ '')''))"
| "get_property (JObj fs) k = Inr (map_of fs k)"
| "get_property v k = Inr None"

definition digit_char :: "nat \<Rightarrow> char" where
  "digit_char d = ''0123456789ABCDEF'' ! d"

text \<open>The decimal rendering of a non-negative integer, as a template literal gives it.\<close>

fun show_nat :: "nat \<Rightarrow> string" where
  "show_nat n = (if n < 10 then [digit_char n] else show_nat (n div 10) @ [digit_char (n mod 10)])"

declare show_nat.simps [simp del]

subsection \<open>\<open>JSON.stringify\<close>\<close>

definition dquote :: char where
  "dquote = CHR 0x22"

definition backslash :: char where
  "backslash = CHR 0x5C"

definition hex4_lower :: "nat \<Rightarrow> string" where
  "hex4_lower n = [CHR ''0'', CHR ''0'', ''0123456789abcdef'' ! (n div 16), ''0123456789abcdef'' ! (n mod 16)]"

text \<open>\<open>QuoteJSONString\<close>: one character of a string literal.\<close>

definition JSON_escape :: "char \<Rightarrow> string" where
  "JSON_escape c =
     (if c = dquote then [backslash, dquote]
      else if c = backslash then [backslash, backslash]
      else if c = CHR 0x08 then [backslash, CHR ''b'']
      else if c = CHR 0x09 then [backslash, CHR ''t'']
      else if c = CHR 0x0A then [backslash, CHR ''n'']
      else if c = CHR 0x0C then [backslash, CHR ''f'']
      else if c = CHR 0x0D then [backslash, CHR ''r'']
      else if (of_char c :: nat) < 32 then [backslash, CHR ''u''] @ hex4_lower (of_char c)
      else [c])"

definition JSON_quote :: "string \<Rightarrow> string" where
  "JSON_quote s = [dquote] @ concat (map JSON_escape s) @ [dquote]"

fun JSON_stringify :: "jsval \<Rightarrow> string" where
  "JSON_stringify JNull = ''null''"
| "JSON_stringify (JBool b) = (if b then ''true'' else ''false'')"
| "JSON_stringify (JNum s) = (if s = ''NaN'' \<or> s = ''Infinity'' \<or> s = ''-Infinity'' then ''null'' else s)"
| "JSON_stringify (JStr s) = JSON_quote s"
| "JSON_stringify (JArr xs) = ''['' @ join '','' (map (\<lambda>x. JSON_stringify x) xs) @ '']''"
| "JSON_stringify (JObj fs) =
     ''{'' @ join '','' (map (\<lambda>(k, v). JSON_quote k @ '':'' @ JSON_stringify v) fs) @ ''}''"

subsection \<open>Reading a JSON text\<close>

text \<open>
  What a receiver reads from a JSON text by the JSON grammar, for the texts of concern here:
  one object, without white space, whose values are string literals or \<open>null\<close>. It is
  \<open>None\<close> for any other text. The reading says which members a request body carries.
\<close>

text \<open>The value of a hexadecimal digit.\<close>

definition hex_value :: "char \<Rightarrow> nat option" where
  "hex_value c = map_of (zip ''0123456789abcdef'' [0 ..< 16] @ zip ''ABCDEF'' [10 ..< 16]) c"

text \<open>The character that a two-character escape stands for.\<close>

definition unescape :: "char \<Rightarrow> char option" where
  "unescape c =
     (if c = dquote then Some dquote
      else if c = backslash then Some backslash
      else if c = CHR ''/'' then Some CHR ''/''
      else if c = CHR ''b'' then Some (CHR 0x08)
      else if c = CHR ''t'' then Some (CHR 0x09)
      else if c = CHR ''n'' then Some (CHR 0x0A)
      else if c = CHR ''f'' then Some (CHR 0x0C)
      else if c = CHR ''r'' then Some (CHR 0x0D)
      else None)"

text \<open>
  The character of a \<open>u\<close> escape (backslash, \<open>u\<close>, four hexadecimal digits) from its
  digits; only ASCII code points, which are one byte, are read.
\<close>

definition read_u4 :: "string \<Rightarrow> char option" where
  "read_u4 hs =
     (case map hex_value hs of
        [Some a, Some b, Some c, Some d] \<Rightarrow>
          (let n = ((a * 16 + b) * 16 + c) * 16 + d in if n < 128 then Some (char_of n) else None)
      | _ \<Rightarrow> None)"

text \<open>
  The characters of a string literal after its opening quote, up to the closing quote, and
  the text after it. A control character must be escaped.
\<close>

fun read_chars :: "string \<Rightarrow> (string \<times> string) option" where
  "read_chars [] = None"
| "read_chars (c # cs) =
     (if c = dquote then Some ([], cs)
      else if c = backslash then
        (case cs of
           [] \<Rightarrow> None
         | e # cs' \<Rightarrow>
             if e = CHR ''u'' then
               (case read_u4 (take 4 cs') of
                  None \<Rightarrow> None
                | Some ch \<Rightarrow> map_option (\<lambda>(s, rest). (ch # s, rest)) (read_chars (drop 4 cs')))
             else
               (case unescape e of
                  None \<Rightarrow> None
                | Some ch \<Rightarrow> map_option (\<lambda>(s, rest). (ch # s, rest)) (read_chars cs')))
      else if (of_char c :: nat) < 32 then None
      else map_option (\<lambda>(s, rest). (c # s, rest)) (read_chars cs))"

definition read_string :: "string \<Rightarrow> (string \<times> string) option" where
  "read_string text = (case text of [] \<Rightarrow> None | c # cs \<Rightarrow> if c = dquote then read_chars cs else None)"

text \<open>A value: \<open>null\<close> or a string literal.\<close>

definition read_value :: "string \<Rightarrow> (jsval \<times> string) option" where
  "read_value text =
     (if take 4 text = ''null'' then Some (JNull, drop 4 text)
      else map_option (\<lambda>(s, rest). (JStr s, rest)) (read_string text))"

text \<open>
  The members of an object after its opening brace, up to the closing brace, which must end
  the text. The first argument bounds the number of members.
\<close>

fun read_members :: "nat \<Rightarrow> string \<Rightarrow> (string \<times> jsval) list option" where
  "read_members 0 text = None"
| "read_members (Suc n) text =
     (case read_string text of
        None \<Rightarrow> None
      | Some (k, after_key) \<Rightarrow>
          (case after_key of
             [] \<Rightarrow> None
           | c # after_colon \<Rightarrow>
               if c \<noteq> CHR '':'' then None
               else
                 (case read_value after_colon of
                    None \<Rightarrow> None
                  | Some (v, after_value) \<Rightarrow>
                      if after_value = ''}'' then Some [(k, v)]
                      else
                        (case after_value of
                           [] \<Rightarrow> None
                         | c' # others \<Rightarrow>
                             if c' = CHR '','' then map_option (\<lambda>ms. (k, v) # ms) (read_members n others)
                             else None))))"

definition JSON_read_object :: "string \<Rightarrow> (string \<times> jsval) list option" where
  "JSON_read_object text =
     (case text of
        [] \<Rightarrow> None
      | c # cs \<Rightarrow>
          if c \<noteq> CHR ''{'' then None
          else if cs = ''}'' then Some []
          else read_members (length cs) cs)"

subsection \<open>\<open>encodeURIComponent\<close>\<close>

text \<open>
  The characters \<open>encodeURIComponent\<close> leaves alone: letters, digits and \<open>- _ . ! ~ * ' ( )\<close>.
  A string is its UTF-8 bytes, and every other byte becomes \<open>%XX\<close>.
\<close>

definition uri_unreserved :: "char \<Rightarrow> bool" where
  "uri_unreserved c \<longleftrightarrow>
     c \<in> set (''ABCDEFGHIJKLMNOPQRSTUVWXYZabcdefghijklmnopqrstuvwxyz0123456789-_.!~*()'' @ [CHR 0x27])"

definition encodeURIComponent :: "string \<Rightarrow> string" where
  "encodeURIComponent s =
     concat (map (\<lambda>c. if uri_unreserved c then [c]
                       else [CHR ''%'', digit_char (of_char c div 16), digit_char (of_char c mod 16)]) s)"

subsection \<open>\<open>fetch\<close> and \<open>apiFetch\<close>\<close>

text \<open>
  The second argument of \<open>fetch\<close>: a missing member is \<open>None\<close>.
\<close>

record RequestInit =
  "method" :: "string option"
  headers :: "(string \<times> string) list option"
  body :: "string option"

record request =
  url :: string
  init :: RequestInit

text \<open>
  A \<open>Response\<close>. \<open>json\<close> is what \<open>res.json()\<close> settles to: the parsed body, or the
  rejection when the body is not JSON.
\<close>

record response =
  status :: nat
  statusText :: string
  json :: "thrown + jsval"

definition ok :: "response \<Rightarrow> bool" where
  "ok res \<longleftrightarrow> 200 \<le> status res \<and> status res \<le> 299"

text \<open>
  What the module reads from outside: the environment variable and the network.
  \<open>fetch\<close> rejects (\<open>Inl\<close>) when no response arrives.
\<close>

record env =
  REACT_APP_API_URL :: "string option"
  fetch :: "request \<Rightarrow> thrown + response"

definition BASE_URL :: "env \<Rightarrow> string" where
  "BASE_URL e =
     (case REACT_APP_API_URL e of
        None \<Rightarrow> ''http://localhost:8000''
      | Some u \<Rightarrow> if u = [] then ''http://localhost:8000'' else u)"

definition no_options :: RequestInit where
  "no_options = \<lparr>method = None, headers = None, body = None\<rparr>"

text \<open>\<open>{ headers: {...}, ...options }\<close>: a member of \<open>options\<close> replaces the default.\<close>

definition with_default_headers :: "RequestInit \<Rightarrow> RequestInit" where
  "with_default_headers options =
     options\<lparr>headers :=
       (case headers options of
          None \<Rightarrow> Some [(''Content-Type'', ''application/json'')]
        | Some h \<Rightarrow> Some h)\<rparr>"

text \<open>What \<open>apiFetch\<close> throws for a response that is not \<open>ok\<close>.\<close>

definition error_of_response :: "response \<Rightarrow> js_error" where
  "error_of_response res =
     (let err = (case json res of
                   Inl _ \<Rightarrow> JObj [(''detail'', JStr (statusText res))]
                 | Inr v \<Rightarrow> v)
      in case get_property err ''detail'' of
           Inl e \<Rightarrow> e
         | Inr None \<Rightarrow> Error (''HTTP '' @ show_nat (status res))
         | Inr (Some d) \<Rightarrow>
             if truthy d then (case ToString d of Inl e \<Rightarrow> e | Inr m \<Rightarrow> Error m)
             else Error (''HTTP '' @ show_nat (status res)))"

text \<open>
  \<open>apiFetch\<close> returns the request it sent and what its promise settles to:
  \<open>Inl\<close> a rejection, \<open>Inr\<close> the value.
\<close>

definition apiFetch :: "env \<Rightarrow> string \<Rightarrow> RequestInit \<Rightarrow> request \<times> (thrown + jsval)" where
  "apiFetch e path options =
     (let req = \<lparr>url = BASE_URL e @ path, init = with_default_headers options\<rparr>
      in (req,
          case fetch e req of
            Inl err \<Rightarrow> Inl err
          | Inr res \<Rightarrow> if \<not> ok res then Inl (Exception (error_of_response res)) else json res))"

subsection \<open>The API functions\<close>

text \<open>
  \<open>state\<close> and \<open>category\<close> are optional strings: \<open>None\<close> is an omitted argument, which
  takes the parameter's default.
\<close>

definition analyzeCase ::
  "env \<Rightarrow> string \<Rightarrow> string option \<Rightarrow> string option \<Rightarrow> request \<times> (thrown + jsval)" where
  "analyzeCase e caseDescription state category =
     apiFetch e ''/analyze''
       \<lparr>method = Some ''POST'',
        headers = None,
        body = Some (JSON_stringify (JObj
          [(''case_description'', JStr caseDescription),
           (''state'', JStr (case state of None \<Rightarrow> ''All India'' | Some s \<Rightarrow> s)),
           (''category'', case category of None \<Rightarrow> JNull | Some c \<Rightarrow> JStr c)]))\<rparr>"

definition getGraph :: "env \<Rightarrow> string \<Rightarrow> request \<times> (thrown + jsval)" where
  "getGraph e sectionId = apiFetch e (''/graph/'' @ encodeURIComponent sectionId) no_options"

definition getSection :: "env \<Rightarrow> string \<Rightarrow> request \<times> (thrown + jsval)" where
  "getSection e sectionId = apiFetch e (''/section/'' @ encodeURIComponent sectionId) no_options"

definition searchSections :: "env \<Rightarrow> string \<Rightarrow> request \<times> (thrown + jsval)" where
  "searchSections e query = apiFetch e (''/search?q='' @ encodeURIComponent query) no_options"

definition checkHealth :: "env \<Rightarrow> request \<times> (thrown + jsval)" where
  "checkHealth e = apiFetch e ''/health'' no_options"

subsection \<open>The hooks \<open>useAnalyze\<close> and \<open>useGraph\<close>\<close>

text \<open>The three state cells of \<open>useAnalyze\<close>; \<open>None\<close> is an \<open>error\<close> of \<open>null\<close>.\<close>

record analyze_state =
  data :: jsval
  loading :: bool
  error :: "string option"

definition useAnalyze_init :: analyze_state where
  "useAnalyze_init = \<lparr>data = JNull, loading = False, error = None\<rparr>"

text \<open>
  What a call of \<open>analyze\<close> or \<open>reset\<close> does, in program order: a call of a state
  setter, or the request it waits for.
\<close>

datatype analyze_effect =
    SetData jsval
  | SetLoading bool
  | SetError "string option"
  | Await request

fun apply_analyze_effect :: "analyze_state \<Rightarrow> analyze_effect \<Rightarrow> analyze_state" where
  "apply_analyze_effect s (SetData v) = s\<lparr>data := v\<rparr>"
| "apply_analyze_effect s (SetLoading b) = s\<lparr>loading := b\<rparr>"
| "apply_analyze_effect s (SetError m) = s\<lparr>error := m\<rparr>"
| "apply_analyze_effect s (Await r) = s"

definition run_analyze :: "analyze_state \<Rightarrow> analyze_effect list \<Rightarrow> analyze_state" where
  "run_analyze s effs = foldl apply_analyze_effect s effs"


text \<open>
  \<open>analyze\<close>: the effects of the call and what its promise settles to (\<open>Inl\<close> is a
  rejection). The \<open>try\<close> block sets the data, the \<open>catch\<close> block the error, and the
  \<open>finally\<close> block runs after either. When reading \<open>e.message\<close> in the \<open>catch\<close>
  block throws, \<open>setError\<close> is not called, the \<open>finally\<close> block still runs, and the
  call rejects.
\<close>

definition analyze ::
  "env \<Rightarrow> string \<Rightarrow> string option \<Rightarrow> string option \<Rightarrow> analyze_effect list \<times> (thrown + jsval)" where
  "analyze e caseDescription state category =
     (let (req, settled) = analyzeCase e caseDescription state category;
          (handled, ret) =
            (case settled of
               Inr result \<Rightarrow> ([SetData result], Inr result)
             | Inl ex \<Rightarrow>
                 (case read_message ex of
                    Inr m \<Rightarrow> ([SetError (Some m)], Inr JNull)
                  | Inl err \<Rightarrow> ([], Inl (Exception err))))
      in ([SetLoading True, SetError None, Await req] @ handled @ [SetLoading False], ret))"

definition reset :: "analyze_effect list" where
  "reset = [SetData JNull, SetError None]"








section \<open>The analysis engine behind \<open>POST /analyze\<close>\<close>

text \<open>
  The backend (\<open>main.py\<close> in the repository's layout) is not among the source files; only its
  client is. The engine below follows sections 3 and 4 of the specification. What the
  specification leaves open (the relevance weights and the confidence formula, its section 9)
  is a parameter.
\<close>

subsection \<open>Data model\<close>

text \<open>Modelled from the spec: the error taxonomy of the absent backend (section 7).\<close>

datatype analysis_error = InvalidInput | NotFound | StoreUnavailable | InternalInconsistency

text \<open>Modelled from the spec: the LegalSection entity of the absent backend (section 3).\<close>

record LegalSection =
  section_id :: string
  section_number :: nat
  section_title :: string
  jurisdictions :: "string list"
  category :: string
  layman_explanation :: string
  severity_level :: nat
  cognizable :: bool
  bailable :: bool
  punishment_summary :: string
  max_punishment_years :: rat

text \<open>Modelled from the spec: the CaseType entity of the absent backend (section 3).\<close>

record CaseType =
  case_type_id :: string
  case_type_description :: string
  duration :: string
  common_mistakes :: "string list"

text \<open>Modelled from the spec: the LegalAction entity of the absent backend (section 3).\<close>

record LegalAction =
  action_id :: string
  action_name :: string
  action_type :: string
  authority_involved :: string
  cost_min :: rat
  cost_max :: rat
  online_possible :: bool
  risk_level :: nat
  procedure_steps :: "string list"

text \<open>Modelled from the spec: the Evidence entity of the absent backend (section 3).\<close>

record Evidence =
  evidence_id :: string
  evidence_name :: string
  evidence_type :: string
  evidence_description :: string
  legal_weight :: nat
  evidence_source :: string
  storage_requirements :: string
  tamper_risk :: string
  necessity_level :: nat

text \<open>Modelled from the spec: the Outcome entity of the absent backend (section 3).\<close>

record Outcome =
  outcome_id :: string
  outcome_description :: string
  outcome_type :: string
  timeline_months :: rat
  appeal_possible :: bool
  precedent_cases :: "string list"
  node_probability :: rat

text \<open>
  Modelled from the spec: the Graph Store Adapter of the absent backend (section 4.1), as the
  queries the engine makes of it: the text search, and \<open>neighbors\<close> once per relationship type
  with that relationship's edge attributes (MAPS_TO_CASE_TYPE: relevance score; HAS_ACTION:
  sequence hint and conditions; REQUIRES_EVIDENCE: necessity and how it proves;
  LEADS_TO_OUTCOME: the action's probability of reaching the outcome). Each may fail.
\<close>

record graph_store =
  searchByText :: "string \<Rightarrow> analysis_error + (LegalSection \<times> rat) list"
  case_types_of :: "string \<Rightarrow> analysis_error + (CaseType \<times> rat) list"
  actions_of :: "string \<Rightarrow> analysis_error + (LegalAction \<times> int \<times> string) list"
  evidence_of :: "string \<Rightarrow> analysis_error + (Evidence \<times> nat \<times> string) list"
  outcomes_of :: "string \<Rightarrow> analysis_error + (Outcome \<times> rat) list"

text \<open>
  Modelled from the spec: the tunable configuration of the absent backend (section 9): the
  relevance score of a section from its text-match score, the requested state and category,
  and the confidence from the top relevance, the fraction of stages with output and the
  relevance scores of all matches.
\<close>

record config =
  score :: "rat \<Rightarrow> LegalSection \<Rightarrow> string \<Rightarrow> string option \<Rightarrow> rat"
  confidence :: "rat \<Rightarrow> rat \<Rightarrow> rat list \<Rightarrow> rat"

text \<open>Modelled from the spec: a scored match of the absent Section Matcher (section 4.2).\<close>

record matched_section =
  legal_section :: LegalSection
  relevance_score :: rat

text \<open>Modelled from the spec: a case type kept by the absent Context Aggregator (section 4.3).\<close>

record case_type_item =
  case_type :: CaseType
  case_type_relevance :: rat
  supports :: "string list"

text \<open>Modelled from the spec: an evidence item kept by the absent Context Aggregator (section 4.3).\<close>

record evidence_item =
  evidence :: Evidence
  necessity :: nat
  how_it_proves :: "(string \<times> string) list"

text \<open>Modelled from the spec: an entry of the absent Action Planner's plan (section 4.4).\<close>

record planned_action =
  action :: LegalAction
  sequence_hint :: int
  conditions :: "string list"
  sequence_number :: nat

text \<open>Modelled from the spec: an entry of the absent Outcome Synthesizer's output (section 4.5).\<close>

record outcome_entry =
  outcome :: Outcome
  probability :: rat
  influencing_factors :: "string list"

text \<open>Modelled from the spec: the step types of the absent Reasoning Tracer (section 3).\<close>

datatype step_type = Match | Aggregate | Plan | Synthesize

text \<open>
  Modelled from the spec: a ReasoningStep of the absent Reasoning Tracer (section 3); the
  result summary is a count, and for the match step the relevance scores in rank order.
\<close>

record ReasoningStep =
  step :: nat
  step_kind :: step_type
  step_description :: string
  result_count :: nat
  result_scores :: "rat list"

text \<open>Modelled from the spec: the AnalysisResult of the absent backend (section 3).\<close>

record AnalysisResult =
  case_description :: string
  matched_sections :: "matched_section list"
  case_types :: "case_type_item list"
  action_plan :: "planned_action list"
  evidence_checklist :: "evidence_item list"
  outcome_probabilities :: "outcome_entry list"
  reasoning_trace :: "ReasoningStep list"
  confidence_score :: rat

subsection \<open>Shared helpers\<close>

text \<open>
  Modelled from the spec: deduplication by id in the absent backend (section 9), a mapping
  keyed by entity id with a merge function, kept in order of first occurrence.
\<close>

fun upsert :: "('a \<Rightarrow> string) \<Rightarrow> ('a \<Rightarrow> 'a \<Rightarrow> 'a) \<Rightarrow> 'a list \<Rightarrow> 'a \<Rightarrow> 'a list" where
  "upsert key merge [] x = [x]"
| "upsert key merge (y # ys) x =
     (if key y = key x then merge y x # ys else y # upsert key merge ys x)"

text \<open>
  Modelled from the spec: the absent backend's querying of the store once per item, where
  the first failure is the failure of the whole (sections 5 and 7).
\<close>

fun collect :: "('a \<Rightarrow> analysis_error + 'b list) \<Rightarrow> 'a list \<Rightarrow> analysis_error + 'b list" where
  "collect f [] = Inr []"
| "collect f (x # xs) =
     (case f x of
        Inl e \<Rightarrow> Inl e
      | Inr ys \<Rightarrow> (case collect f xs of Inl e \<Rightarrow> Inl e | Inr zs \<Rightarrow> Inr (ys @ zs)))"

text \<open>Modelled from the spec: ordering by a ranking relation in the absent backend (sections 4.2, 4.4).\<close>

fun insert_ranked :: "('a \<Rightarrow> 'a \<Rightarrow> bool) \<Rightarrow> 'a \<Rightarrow> 'a list \<Rightarrow> 'a list" where
  "insert_ranked before x [] = [x]"
| "insert_ranked before x (y # ys) =
     (if before y x then y # insert_ranked before x ys else x # y # ys)"

text \<open>Modelled from the spec: the sort by such a relation in the absent backend (sections 4.2, 4.4).\<close>

definition rank_by :: "('a \<Rightarrow> 'a \<Rightarrow> bool) \<Rightarrow> 'a list \<Rightarrow> 'a list" where
  "rank_by before xs = foldl (\<lambda>acc x. insert_ranked before x acc) [] xs"

text \<open>Modelled from the spec: clamping to [0,1] in the absent Outcome Synthesizer (section 4.5).\<close>

definition clamp01 :: "rat \<Rightarrow> rat" where
  "clamp01 x = max 0 (min 1 x)"

subsection \<open>Section Matcher\<close>

text \<open>
  Modelled from the spec: the jurisdiction and category filter of the absent Section Matcher
  (section 4.2): a section applies if its jurisdictions contain "All India" or the requested
  state, and its category is the requested one if one is given.
\<close>

definition applies :: "LegalSection \<Rightarrow> string \<Rightarrow> string option \<Rightarrow> bool" where
  "applies s st cat \<longleftrightarrow>
     (''All India'' \<in> set (jurisdictions s) \<or> st \<in> set (jurisdictions s))
     \<and> (case cat of None \<Rightarrow> True | Some c \<Rightarrow> category s = c)"

text \<open>
  Modelled from the spec: the order of the absent Section Matcher's output (section 4.2): by
  score descending, ties by severity level descending, then by section number ascending.
\<close>

definition match_before :: "matched_section \<Rightarrow> matched_section \<Rightarrow> bool" where
  "match_before a b \<longleftrightarrow>
     relevance_score a > relevance_score b
     \<or> (relevance_score a = relevance_score b
        \<and> (severity_level (legal_section a) > severity_level (legal_section b)
           \<or> (severity_level (legal_section a) = severity_level (legal_section b)
              \<and> section_number (legal_section a) \<le> section_number (legal_section b))))"

text \<open>
  Modelled from the spec: the absent Section Matcher (section 4.2). An empty description fails
  with InvalidInput; the state defaults to "All India"; no match is the empty sequence.
\<close>

definition Section_Matcher ::
  "config \<Rightarrow> graph_store \<Rightarrow> string \<Rightarrow> string option \<Rightarrow> string option
     \<Rightarrow> analysis_error + matched_section list" where
  "Section_Matcher cfg store description st cat =
     (if description = [] then Inl InvalidInput
      else
        let requested = (case st of None \<Rightarrow> ''All India'' | Some x \<Rightarrow> x)
        in case searchByText store description of
             Inl e \<Rightarrow> Inl e
           | Inr hits \<Rightarrow>
               Inr (rank_by match_before
                      (map (\<lambda>(s, t). \<lparr>legal_section = s, relevance_score = score cfg t s requested cat\<rparr>)
                         (filter (\<lambda>(s, t). applies s requested cat) hits))))"

subsection \<open>Context Aggregator\<close>

text \<open>
  Modelled from the spec: the merge of a case type seen again in the absent Context Aggregator
  (section 4.3): the maximum relevance, and every section it supports.
\<close>

definition merge_case_type :: "case_type_item \<Rightarrow> case_type_item \<Rightarrow> case_type_item" where
  "merge_case_type a b =
     a\<lparr>case_type_relevance := max (case_type_relevance a) (case_type_relevance b),
       supports := List.union (supports a) (supports b)\<rparr>"

text \<open>
  Modelled from the spec: the merge of an evidence item seen again in the absent Context
  Aggregator (section 4.3): the maximum necessity, and every section it proves.
\<close>

definition merge_evidence :: "evidence_item \<Rightarrow> evidence_item \<Rightarrow> evidence_item" where
  "merge_evidence a b =
     a\<lparr>necessity := max (necessity a) (necessity b),
       how_it_proves := List.union (how_it_proves a) (how_it_proves b)\<rparr>"

text \<open>
  Modelled from the spec: the absent Context Aggregator (section 4.3): the case types and the
  evidence of every matched section, deduplicated by id.
\<close>

definition Context_Aggregator ::
  "graph_store \<Rightarrow> matched_section list
     \<Rightarrow> analysis_error + (case_type_item list \<times> evidence_item list)" where
  "Context_Aggregator store matched =
     (case collect (\<lambda>m. case case_types_of store (section_id (legal_section m)) of
                           Inl e \<Rightarrow> Inl e
                         | Inr cts \<Rightarrow>
                             Inr (map (\<lambda>(c, r). \<lparr>case_type = c, case_type_relevance = r,
                                                  supports = [section_id (legal_section m)]\<rparr>) cts))
             matched of
        Inl e \<Rightarrow> Inl e
      | Inr cts \<Rightarrow>
          (case collect (\<lambda>m. case evidence_of store (section_id (legal_section m)) of
                                Inl e \<Rightarrow> Inl e
                              | Inr evs \<Rightarrow>
                                  Inr (map (\<lambda>(ev, n, how). \<lparr>evidence = ev, necessity = n,
                                              how_it_proves = [(section_id (legal_section m), how)]\<rparr>) evs))
                  matched of
             Inl e \<Rightarrow> Inl e
           | Inr evs \<Rightarrow>
               Inr (foldl (upsert (\<lambda>i. case_type_id (case_type i)) merge_case_type) [] cts,
                    foldl (upsert (\<lambda>i. evidence_id (evidence i)) merge_evidence) [] evs)))"

subsection \<open>Action Planner\<close>

text \<open>
  Modelled from the spec: the merge of an action seen again in the absent Action Planner
  (section 4.4): the minimum cost_min, the maximum cost_max, the union of the conditions.
\<close>

definition merge_action :: "planned_action \<Rightarrow> planned_action \<Rightarrow> planned_action" where
  "merge_action a b =
     a\<lparr>action := (action a)\<lparr>cost_min := min (cost_min (action a)) (cost_min (action b)),
                              cost_max := max (cost_max (action a)) (cost_max (action b))\<rparr>,
       conditions := List.union (conditions a) (conditions b)\<rparr>"

text \<open>
  Modelled from the spec: the order of the absent Action Planner's plan (section 4.4): by the
  sequence hint ascending, ties by risk level ascending.
\<close>

definition action_before :: "planned_action \<Rightarrow> planned_action \<Rightarrow> bool" where
  "action_before a b \<longleftrightarrow>
     sequence_hint a < sequence_hint b
     \<or> (sequence_hint a = sequence_hint b \<and> risk_level (action a) \<le> risk_level (action b))"

text \<open>Modelled from the spec: the final numbering 1..N of the absent Action Planner's plan (section 4.4).\<close>

definition renumber :: "planned_action list \<Rightarrow> planned_action list" where
  "renumber plan = map (\<lambda>(a, i). a\<lparr>sequence_number := i\<rparr>) (zip plan [1 ..< Suc (length plan)])"

text \<open>Modelled from the spec: the absent Action Planner (section 4.4).\<close>

definition Action_Planner ::
  "graph_store \<Rightarrow> matched_section list \<Rightarrow> analysis_error + planned_action list" where
  "Action_Planner store matched =
     (case collect (\<lambda>m. case actions_of store (section_id (legal_section m)) of
                           Inl e \<Rightarrow> Inl e
                         | Inr acts \<Rightarrow>
                             Inr (map (\<lambda>(a, hint, cond). \<lparr>action = a, sequence_hint = hint,
                                         conditions = [cond], sequence_number = 0\<rparr>) acts))
             matched of
        Inl e \<Rightarrow> Inl e
      | Inr acts \<Rightarrow>
          Inr (renumber (rank_by action_before
                 (foldl (upsert (\<lambda>a. action_id (action a)) merge_action) [] acts))))"

subsection \<open>Outcome Synthesizer\<close>

text \<open>
  Modelled from the spec: the combination of a further action's probability into an outcome
  in the absent Outcome Synthesizer (section 4.5): with \<open>1 - q\<close> the probability that no
  contributing action so far reaches the outcome, the next action multiplies it by
  \<open>1 - p\<close>; the influencing factors are the union of the action names.
\<close>

definition merge_outcome :: "outcome_entry \<Rightarrow> outcome_entry \<Rightarrow> outcome_entry" where
  "merge_outcome a b =
     a\<lparr>probability := 1 - (1 - probability a) * (1 - probability b),
       influencing_factors := List.union (influencing_factors a) (influencing_factors b)\<rparr>"

text \<open>
  Modelled from the spec: the aggregation by outcome id of the absent Outcome Synthesizer
  (section 4.5), from the contributions (outcome, individual probability, action name) in plan
  order; the combined probability is clamped to [0,1]. An outcome enters the output with its
  first contribution.
\<close>

definition synthesize :: "(Outcome \<times> rat \<times> string) list \<Rightarrow> outcome_entry list" where
  "synthesize contributions =
     map (\<lambda>en. en\<lparr>probability := clamp01 (probability en)\<rparr>)
       (foldl (upsert (\<lambda>en. outcome_id (outcome en)) merge_outcome) []
          (map (\<lambda>(oc, p, name). \<lparr>outcome = oc, probability = p, influencing_factors = [name]\<rparr>)
             contributions))"

text \<open>
  Modelled from the spec: the formula of the absent Outcome Synthesizer (section 4.5) for the
  probability that at least one path reaches the outcome, \<open>1 - \<Prod>(1 - p\<^sub>i)\<close>, over the
  individual probabilities of the contributing actions.
\<close>

definition combined_probability :: "rat list \<Rightarrow> rat" where
  "combined_probability ps = 1 - prod_list (map (\<lambda>p. 1 - p) ps)"

text \<open>
  Modelled from the spec: the individual probabilities of the planned actions that lead to
  the outcome with a given id (section 4.5), one for each contribution.
\<close>

definition contributing :: "string \<Rightarrow> (Outcome \<times> rat \<times> string) list \<Rightarrow> rat list" where
  "contributing oid cs = map (\<lambda>(oc, p, name). p) (filter (\<lambda>(oc, p, name). outcome_id oc = oid) cs)"

text \<open>
  Modelled from the spec: the LEADS_TO_OUTCOME edges the absent Outcome Synthesizer fetches for
  each planned action (section 4.5).
\<close>

definition contributions_of ::
  "graph_store \<Rightarrow> planned_action list \<Rightarrow> analysis_error + (Outcome \<times> rat \<times> string) list" where
  "contributions_of store plan =
     collect (\<lambda>a. case outcomes_of store (action_id (action a)) of
                     Inl e \<Rightarrow> Inl e
                   | Inr edges \<Rightarrow> Inr (map (\<lambda>(oc, p). (oc, p, action_name (action a))) edges))
       plan"

text \<open>Modelled from the spec: the absent Outcome Synthesizer (section 4.5).\<close>

definition Outcome_Synthesizer ::
  "graph_store \<Rightarrow> planned_action list \<Rightarrow> analysis_error + outcome_entry list" where
  "Outcome_Synthesizer store plan =
     (case contributions_of store plan of
        Inl e \<Rightarrow> Inl e
      | Inr contributions \<Rightarrow> Inr (synthesize contributions))"

subsection \<open>Reasoning Tracer and the pipeline\<close>

text \<open>
  Modelled from the spec: the recording of a step by the absent Reasoning Tracer (section 4.6);
  the index is the next one.
\<close>

definition record_step ::
  "ReasoningStep list \<Rightarrow> step_type \<Rightarrow> string \<Rightarrow> nat \<Rightarrow> rat list \<Rightarrow> ReasoningStep list" where
  "record_step trace kind description n scores =
     trace @ [\<lparr>step = Suc (length trace), step_kind = kind, step_description = description,
               result_count = n, result_scores = scores\<rparr>]"

text \<open>
  Modelled from the spec: the confidence score of the absent Reasoning Tracer (sections 4.2,
  4.6), a function of the trace: 0 when nothing matched, otherwise the configured combination
  of the top relevance, the fraction of stages with output, and the relevance scores.
\<close>

definition derive_confidence :: "config \<Rightarrow> ReasoningStep list \<Rightarrow> rat" where
  "derive_confidence cfg trace =
     (case concat (map result_scores (filter (\<lambda>s. step_kind s = Match) trace)) of
        [] \<Rightarrow> 0
      | best # rest \<Rightarrow>
          confidence cfg best
            (of_nat (length (filter (\<lambda>s. 0 < result_count s) trace)) / of_nat (length trace))
            (best # rest))"

text \<open>
  Modelled from the spec: the control flow of the absent backend (section 2): the Section
  Matcher, then the Context Aggregator, the Action Planner and the Outcome Synthesizer, then
  the Reasoning Tracer; a failure of any stage is the failure of the analysis, with no result.
\<close>

definition analyse ::
  "config \<Rightarrow> graph_store \<Rightarrow> string \<Rightarrow> string option \<Rightarrow> string option
     \<Rightarrow> analysis_error + AnalysisResult" where
  "analyse cfg store description st cat =
     (case Section_Matcher cfg store description st cat of
        Inl e \<Rightarrow> Inl e
      | Inr matched \<Rightarrow>
     (case Context_Aggregator store matched of
        Inl e \<Rightarrow> Inl e
      | Inr (cts, evs) \<Rightarrow>
     (case Action_Planner store matched of
        Inl e \<Rightarrow> Inl e
      | Inr plan \<Rightarrow>
     (case Outcome_Synthesizer store plan of
        Inl e \<Rightarrow> Inl e
      | Inr outcomes \<Rightarrow>
          let t1 = record_step [] Match ''sections matched'' (length matched)
                     (map relevance_score matched);
              t2 = record_step t1 Aggregate ''case types and evidence aggregated''
                     (length cts + length evs) [];
              t3 = record_step t2 Plan ''actions planned'' (length plan) [];
              t4 = record_step t3 Synthesize ''outcomes synthesized'' (length outcomes) []
          in Inr \<lparr>case_description = description,
                  matched_sections = matched,
                  case_types = cts,
                  action_plan = plan,
                  evidence_checklist = evs,
                  outcome_probabilities = outcomes,
                  reasoning_trace = t4,
                  confidence_score = derive_confidence cfg t4\<rparr>))))"

section \<open>Example inputs\<close>

text \<open>A network that answers every request with the same response, and one that is down.\<close>

definition replying :: "response \<Rightarrow> env" where
  "replying res = \<lparr>REACT_APP_API_URL = None, fetch = (\<lambda>req. Inr res)\<rparr>"

definition offline :: env where
  "offline =
     \<lparr>REACT_APP_API_URL = None, fetch = (\<lambda>req. Inl (Exception (TypeError ''Failed to fetch'')))\<rparr>"

text \<open>A \<open>fetch\<close> that is not the platform's own and rejects with a given value.\<close>

definition rejecting :: "thrown \<Rightarrow> env" where
  "rejecting t = \<lparr>REACT_APP_API_URL = None, fetch = (\<lambda>req. Inl t)\<rparr>"

text \<open>A store with no data, and a choice of the tunable configuration.\<close>

definition empty_store :: graph_store where
  "empty_store =
     \<lparr>searchByText = (\<lambda>q. Inr []), case_types_of = (\<lambda>i. Inr []), actions_of = (\<lambda>i. Inr []),
      evidence_of = (\<lambda>i. Inr []), outcomes_of = (\<lambda>i. Inr [])\<rparr>"

definition example_config :: config where
  "example_config =
     \<lparr>score = (\<lambda>t s st cat. t), confidence = (\<lambda>best fraction scores. best * fraction)\<rparr>"

text \<open>Two planned actions that lead to the same outcome, with probabilities 0.5 and 0.4.\<close>

definition example_outcome :: Outcome where
  "example_outcome =
     \<lparr>outcome_id = ''OUT_1'', outcome_description = ''Money recovered'',
      outcome_type = ''favourable'', timeline_months = 6, appeal_possible = True,
      precedent_cases = [], node_probability = 1 / 2\<rparr>"

definition example_action :: "string \<Rightarrow> string \<Rightarrow> nat \<Rightarrow> planned_action" where
  "example_action i n k =
     \<lparr>action = \<lparr>action_id = i, action_name = n, action_type = ''filing'',
                 authority_involved = ''Police'', cost_min = 0, cost_max = 500,
                 online_possible = False, risk_level = 1, procedure_steps = []\<rparr>,
      sequence_hint = int k, conditions = [], sequence_number = k\<rparr>"

definition convergent_store :: graph_store where
  "convergent_store =
     empty_store\<lparr>outcomes_of :=
       (\<lambda>i. if i = ''A1'' then Inr [(example_outcome, 1 / 2)]
            else if i = ''A2'' then Inr [(example_outcome, 2 / 5)]
            else Inr [])\<rparr>"

section \<open>Properties of the API client\<close>

subsection \<open>Shared facts about \<open>apiFetch\<close>\<close>

lemma fst_apiFetch:
  "fst (apiFetch e path options) = \<lparr>url = BASE_URL e @ path, init = with_default_headers options\<rparr>"
  by (simp add: apiFetch_def Let_def)

lemma snd_apiFetch:
  "snd (apiFetch e path options) =
     (case fetch e (fst (apiFetch e path options)) of
        Inl err \<Rightarrow> Inl err
      | Inr res \<Rightarrow> if \<not> ok res then Inl (Exception (error_of_response res)) else json res)"
  by (simp add: apiFetch_def Let_def)

lemma apiFetch_not_ok:
  assumes "fetch e (fst (apiFetch e path options)) = Inr res" and "\<not> ok res"
  shows "snd (apiFetch e path options) = Inl (Exception (error_of_response res))"
  using assms by (simp add: snd_apiFetch)

lemma show_nat_404: "show_nat 404 = ''404''"
  by code_simp

lemma show_nat_503: "show_nat 503 = ''503''"
  by code_simp

subsection \<open>Responses that are not 2xx\<close>

text \<open>
  C1, as stated, fails: a 404 response whose body is the JSON object \<open>{}\<close> has no
  \<open>detail\<close>, and the message of the error is \<open>HTTP 404\<close>, not the status text
  \<open>Not Found\<close>.
\<close>

theorem apiFetch_status_text_counterexample:
  "\<not> ok \<lparr>status = 404, statusText = ''Not Found'', json = Inr (JObj [])\<rparr>
   \<and> get_property (JObj []) ''detail'' = Inr None
   \<and> snd (apiFetch (replying \<lparr>status = 404, statusText = ''Not Found'', json = Inr (JObj [])\<rparr>)
             ''/health'' no_options) = Inl (Exception (Error ''HTTP 404''))
   \<and> message (Error ''HTTP 404'') \<noteq> ''Not Found''"
  by (simp add: apiFetch_def replying_def ok_def error_of_response_def Let_def show_nat_404)

text \<open>
  C1, amended: for every response that is not 2xx, \<open>apiFetch\<close> and each of
  \<open>analyzeCase\<close>, \<open>getGraph\<close>, \<open>getSection\<close>, \<open>searchSections\<close> and \<open>checkHealth\<close>
  reject and never resolve. The error's message is the \<open>detail\<close> member when the body is a
  JSON object whose \<open>detail\<close> is a non-empty string; it is \<open>HTTP\<close> followed by the status
  code when the body is a JSON object without \<open>detail\<close>; it is the status text when the body
  is not JSON and the status text is not empty.
\<close>

theorem apiFetch_rejects_non_2xx:
  assumes "\<not> ok res"
  shows "(fetch e (fst (apiFetch e path options)) = Inr res
            \<longrightarrow> snd (apiFetch e path options) = Inl (Exception (error_of_response res)))
       \<and> (fetch e (fst (analyzeCase e d st cat)) = Inr res
            \<longrightarrow> snd (analyzeCase e d st cat) = Inl (Exception (error_of_response res)))
       \<and> (fetch e (fst (getGraph e sid)) = Inr res
            \<longrightarrow> snd (getGraph e sid) = Inl (Exception (error_of_response res)))
       \<and> (fetch e (fst (getSection e sid)) = Inr res
            \<longrightarrow> snd (getSection e sid) = Inl (Exception (error_of_response res)))
       \<and> (fetch e (fst (searchSections e q)) = Inr res
            \<longrightarrow> snd (searchSections e q) = Inl (Exception (error_of_response res)))
       \<and> (fetch e (fst (checkHealth e)) = Inr res
            \<longrightarrow> snd (checkHealth e) = Inl (Exception (error_of_response res)))
       \<and> (json res = Inr (JObj fs) \<and> map_of fs ''detail'' = Some (JStr dt) \<and> dt \<noteq> []
            \<longrightarrow> error_of_response res = Error dt)
       \<and> (json res = Inr (JObj fs) \<and> map_of fs ''detail'' = None
            \<longrightarrow> error_of_response res = Error (''HTTP '' @ show_nat (status res)))
       \<and> (json res = Inl x \<and> statusText res \<noteq> []
            \<longrightarrow> error_of_response res = Error (statusText res))"
proof -
  have sent: "\<And>path options. fetch e (fst (apiFetch e path options)) = Inr res
      \<Longrightarrow> snd (apiFetch e path options) = Inl (Exception (error_of_response res))"
    using assms by (rule apiFetch_not_ok[rotated])
  have msgs: "(json res = Inr (JObj fs) \<and> map_of fs ''detail'' = Some (JStr dt) \<and> dt \<noteq> []
            \<longrightarrow> error_of_response res = Error dt)
       \<and> (json res = Inr (JObj fs) \<and> map_of fs ''detail'' = None
            \<longrightarrow> error_of_response res = Error (''HTTP '' @ show_nat (status res)))
       \<and> (json res = Inl x \<and> statusText res \<noteq> []
            \<longrightarrow> error_of_response res = Error (statusText res))"
    by (simp add: error_of_response_def)
  show ?thesis
    using sent msgs
    unfolding analyzeCase_def getGraph_def getSection_def searchSections_def checkHealth_def
    by blast
qed

theorem apiFetch_rejects_non_2xx_witness:
  "\<not> ok \<lparr>status = 422, statusText = ''Unprocessable Entity'',
          json = Inr (JObj [(''detail'', JStr ''case_description must not be empty'')])\<rparr>
   \<and> snd (analyzeCase (replying \<lparr>status = 422, statusText = ''Unprocessable Entity'',
          json = Inr (JObj [(''detail'', JStr ''case_description must not be empty'')])\<rparr>) [] None None)
       = Inl (Exception (Error ''case_description must not be empty''))
   \<and> snd (checkHealth (replying \<lparr>status = 503, statusText = ''Service Unavailable'',
          json = Inr (JObj [])\<rparr>)) = Inl (Exception (Error ''HTTP 503''))
   \<and> snd (getGraph (replying \<lparr>status = 502, statusText = ''Bad Gateway'',
          json = Inl (Exception (SyntaxError ''Unexpected token''))\<rparr>) ''IPC_417'')
       = Inl (Exception (Error ''Bad Gateway''))"
proof -
  let ?r1 = "\<lparr>status = 422, statusText = ''Unprocessable Entity'',
          json = Inr (JObj [(''detail'', JStr ''case_description must not be empty'')])\<rparr>"
  let ?r2 = "\<lparr>status = 503, statusText = ''Service Unavailable'', json = Inr (JObj [])\<rparr>"
  let ?r3 = "\<lparr>status = 502, statusText = ''Bad Gateway'',
          json = Inl (Exception (SyntaxError ''Unexpected token''))\<rparr>"
  have n1: "\<not> ok ?r1" and n2: "\<not> ok ?r2" and n3: "\<not> ok ?r3"
    by (simp_all add: ok_def)
  show ?thesis
    using n1
      apiFetch_rejects_non_2xx[OF n1, where e = "replying ?r1" and d = "[]" and st = None
        and cat = None and fs = "[(''detail'', JStr ''case_description must not be empty'')]"
        and dt = "''case_description must not be empty''"]
      apiFetch_rejects_non_2xx[OF n2, where e = "replying ?r2" and fs = "[]"]
      apiFetch_rejects_non_2xx[OF n3, where e = "replying ?r3" and sid = "''IPC_417''"
        and x = "Exception (SyntaxError ''Unexpected token'')"]
    by (simp add: replying_def show_nat_503)
qed

subsection \<open>A string literal reads back as the string\<close>

lemma hex_digit_value:
  assumes "k < 16"
  shows "hex_value (''0123456789abcdef'' ! k) = Some k"
proof -
  from assms have "k \<in> {0, 1, 2, 3, 4, 5, 6, 7, 8, 9, 10, 11, 12, 13, 14, 15}"
    by simp arith
  then show ?thesis
    by (auto simp: hex_value_def upt_rec)
qed

lemma read_u4_hex4_lower:
  assumes "n < 32"
  shows "read_u4 (hex4_lower n) = Some (char_of n)"
proof -
  from assms have d: "n div 16 < 16" and m: "n mod 16 < 16"
    by auto
  have z: "hex_value CHR ''0'' = Some 0"
    using hex_digit_value[of 0] by simp
  from assms have small: "n div 16 * 16 + n mod 16 < 128"
    by simp
  show ?thesis
    using small by (simp add: read_u4_def hex4_lower_def z hex_digit_value[OF d] hex_digit_value[OF m] Let_def)
qed

lemma read_chars_escape:
  "read_chars (JSON_escape c @ rest) = map_option (\<lambda>(s, r). (c # s, r)) (read_chars rest)"
proof -
  consider (dq) "c = dquote" | (bs) "c = backslash" | (b) "c = CHR 0x08" | (t) "c = CHR 0x09"
    | (n) "c = CHR 0x0A" | (f) "c = CHR 0x0C" | (r) "c = CHR 0x0D"
    | (ctl) "c \<noteq> dquote" "c \<noteq> backslash" "c \<noteq> CHR 0x08" "c \<noteq> CHR 0x09" "c \<noteq> CHR 0x0A"
        "c \<noteq> CHR 0x0C" "c \<noteq> CHR 0x0D" "(of_char c :: nat) < 32"
    | (plain) "c \<noteq> dquote" "c \<noteq> backslash" "\<not> (of_char c :: nat) < 32"
    by fastforce
  then show ?thesis
  proof cases
    case ctl
    then have esc: "JSON_escape c = [backslash, CHR ''u''] @ hex4_lower (of_char c)"
      by (simp add: JSON_escape_def)
    have len: "length (hex4_lower (of_char c)) = 4"
      by (simp add: hex4_lower_def)
    have "read_u4 (hex4_lower (of_char c)) = Some (char_of (of_char c :: nat))"
      using ctl(8) by (rule read_u4_hex4_lower)
    then show ?thesis
      using len by (simp add: esc dquote_def backslash_def)
  next
    case plain
    then have "c \<noteq> CHR 0x08" "c \<noteq> CHR 0x09" "c \<noteq> CHR 0x0A" "c \<noteq> CHR 0x0C" "c \<noteq> CHR 0x0D"
      by auto
    with plain show ?thesis by (simp add: JSON_escape_def)
  qed (simp_all add: JSON_escape_def unescape_def dquote_def backslash_def)
qed

lemma read_chars_escaped:
  "read_chars (concat (map JSON_escape s) @ dquote # rest) = Some (s, rest)"
  by (induction s) (simp_all add: read_chars_escape)

lemma read_string_JSON_quote:
  "read_string (JSON_quote s @ rest) = Some (s, rest)"
  by (simp add: read_string_def JSON_quote_def read_chars_escaped)

lemma join_single: "join sep [x] = x"
  by (simp add: join_def)

lemma join_Cons2: "join sep (x # y # ys) = x @ sep @ join sep (y # ys)"
  by (simp add: join_def)

lemma read_value_null: "read_value (''null'' @ rest) = Some (JNull, rest)"
  by (simp add: read_value_def)

lemma read_value_string: "read_value (JSON_quote s @ rest) = Some (JStr s, rest)"
proof -
  have "take 4 (JSON_quote s @ rest) \<noteq> ''null''"
    by (simp add: JSON_quote_def dquote_def)
  then show ?thesis
    by (simp add: read_value_def read_string_JSON_quote)
qed

lemma read_value_stringify:
  assumes "v = JNull \<or> (\<exists>s. v = JStr s)"
  shows "read_value (JSON_stringify v @ rest) = Some (v, rest)"
  using assms read_value_null[of rest] by (auto simp: read_value_string)

lemma read_members_member:
  assumes "v = JNull \<or> (\<exists>s. v = JStr s)"
  shows "read_members (Suc n) (JSON_quote k @ '':'' @ JSON_stringify v @ rest) =
           (if rest = ''}'' then Some [(k, v)]
            else (case rest of
                    [] \<Rightarrow> None
                  | c # others \<Rightarrow>
                      if c = CHR '','' then map_option (\<lambda>ms. (k, v) # ms) (read_members n others)
                      else None))"
  by (simp add: read_string_JSON_quote read_value_stringify[OF assms])

lemma read_members_stringify:
  assumes "list_all (\<lambda>(k, v). v = JNull \<or> (\<exists>s. v = JStr s)) fs" and "fs \<noteq> []"
    and "length fs \<le> n"
  shows "read_members n
           (join '','' (map (\<lambda>(k, v). JSON_quote k @ '':'' @ JSON_stringify v) fs) @ ''}'') = Some fs"
  using assms
proof (induction fs arbitrary: n)
  case Nil
  then show ?case by simp
next
  case (Cons f fs)
  obtain k v where f: "f = (k, v)"
    by (cases f)
  from Cons.prems f have v: "v = JNull \<or> (\<exists>s. v = JStr s)"
    by simp
  from Cons.prems obtain m where n: "n = Suc m" and m: "length fs \<le> m"
    by (cases n) auto
  show ?case
  proof (cases fs)
    case Nil
    then show ?thesis
      using read_members_member[OF v, of m k "''}''"] by (simp add: f n join_single)
  next
    case (Cons g gs)
    let ?tail = "join '','' (map (\<lambda>(k, v). JSON_quote k @ '':'' @ JSON_stringify v) fs) @ ''}''"
    have ih: "read_members m ?tail = Some fs"
      using Cons.IH[of m] Cons.prems m Cons by simp
    have "read_members (Suc m) (JSON_quote k @ '':'' @ JSON_stringify v @ ('','' @ ?tail)) =
            map_option (\<lambda>ms. (k, v) # ms) (read_members m ?tail)"
      using read_members_member[OF v, of m k "'','' @ ?tail"] by simp
    then show ?thesis
      using ih by (simp add: f n Cons join_Cons2)
  qed
qed

lemma length_members_text:
  "length fs \<le> length (join '','' (map (\<lambda>(k, v). JSON_quote k @ '':'' @ JSON_stringify v) fs))"
proof (induction fs)
  case Nil
  show ?case by simp
next
  case (Cons f fs)
  show ?case
  proof (cases fs)
    case Nil
    then show ?thesis by (simp add: join_single split: prod.splits)
  next
    case (Cons g gs)
    with Cons.IH show ?thesis by (simp add: join_Cons2 split: prod.splits)
  qed
qed

lemma JSON_read_object_stringify:
  assumes "list_all (\<lambda>(k, v). v = JNull \<or> (\<exists>s. v = JStr s)) fs"
  shows "JSON_read_object (JSON_stringify (JObj fs)) = Some fs"
proof (cases fs)
  case Nil
  then show ?thesis by (simp add: JSON_read_object_def join_def)
next
  case (Cons f gs)
  let ?text = "join '','' (map (\<lambda>(k, v). JSON_quote k @ '':'' @ JSON_stringify v) fs)"
  obtain k v where f: "f = (k, v)"
    by (cases f)
  have "\<exists>rest. ?text = dquote # rest"
    by (cases gs) (simp_all add: Cons f join_single join_Cons2 JSON_quote_def)
  then have ne: "?text @ ''}'' \<noteq> ''}''"
    by (auto simp: dquote_def)
  have fuel: "length fs \<le> length (?text @ ''}'')"
    using length_members_text[of fs] by simp
  have "read_members (length (?text @ ''}'')) (?text @ ''}'') = Some fs"
    using assms Cons fuel by (intro read_members_stringify) simp_all
  then show ?thesis
    using ne by (simp add: JSON_read_object_def)
qed

subsection \<open>The request of \<open>analyzeCase\<close>\<close>

text \<open>
  C2: the body of the request that \<open>analyzeCase\<close> sends is the JSON text of an object with
  exactly the members \<open>case_description\<close>, \<open>state\<close> and \<open>category\<close>, in this order;
  \<open>case_description\<close> is the first argument, and \<open>state\<close> is \<open>All India\<close> when the
  state argument is omitted. The body reads back, by the JSON grammar, as these three members
  and no other, whatever characters the arguments hold; and the literal written for the
  description is one closed string literal, which reads back as the description.
\<close>

theorem analyzeCase_request_body:
  "fst (analyzeCase e d st cat) =
     \<lparr>url = BASE_URL e @ ''/analyze'',
      init = \<lparr>method = Some ''POST'',
               headers = Some [(''Content-Type'', ''application/json'')],
               body = Some (''{'' @ JSON_quote ''case_description'' @ '':'' @ JSON_quote d
                            @ '','' @ JSON_quote ''state'' @ '':''
                            @ JSON_quote (case st of None \<Rightarrow> ''All India'' | Some s \<Rightarrow> s)
                            @ '','' @ JSON_quote ''category'' @ '':''
                            @ (case cat of None \<Rightarrow> ''null'' | Some c \<Rightarrow> JSON_quote c)
                            @ ''}'')\<rparr>\<rparr>
   \<and> body (init (fst (analyzeCase e d None cat))) =
       Some (JSON_stringify (JObj [(''case_description'', JStr d),
                                   (''state'', JStr ''All India''),
                                   (''category'', case cat of None \<Rightarrow> JNull | Some c \<Rightarrow> JStr c)]))
   \<and> body (init (fst (analyzeCase e d (Some s) cat))) =
       Some (JSON_stringify (JObj [(''case_description'', JStr d),
                                   (''state'', JStr s),
                                   (''category'', case cat of None \<Rightarrow> JNull | Some c \<Rightarrow> JStr c)]))
   \<and> (\<exists>text. body (init (fst (analyzeCase e d st cat))) = Some text
         \<and> JSON_read_object text =
             Some [(''case_description'', JStr d),
                   (''state'', JStr (case st of None \<Rightarrow> ''All India'' | Some s \<Rightarrow> s)),
                   (''category'', case cat of None \<Rightarrow> JNull | Some c \<Rightarrow> JStr c)])
   \<and> read_string (JSON_quote d @ rest) = Some (d, rest)"
proof -
  have texts: "fst (analyzeCase e d st cat) =
     \<lparr>url = BASE_URL e @ ''/analyze'',
      init = \<lparr>method = Some ''POST'',
               headers = Some [(''Content-Type'', ''application/json'')],
               body = Some (''{'' @ JSON_quote ''case_description'' @ '':'' @ JSON_quote d
                            @ '','' @ JSON_quote ''state'' @ '':''
                            @ JSON_quote (case st of None \<Rightarrow> ''All India'' | Some s \<Rightarrow> s)
                            @ '','' @ JSON_quote ''category'' @ '':''
                            @ (case cat of None \<Rightarrow> ''null'' | Some c \<Rightarrow> JSON_quote c)
                            @ ''}'')\<rparr>\<rparr>
   \<and> body (init (fst (analyzeCase e d None cat))) =
       Some (JSON_stringify (JObj [(''case_description'', JStr d),
                                   (''state'', JStr ''All India''),
                                   (''category'', case cat of None \<Rightarrow> JNull | Some c \<Rightarrow> JStr c)]))
   \<and> body (init (fst (analyzeCase e d (Some s) cat))) =
       Some (JSON_stringify (JObj [(''case_description'', JStr d),
                                   (''state'', JStr s),
                                   (''category'', case cat of None \<Rightarrow> JNull | Some c \<Rightarrow> JStr c)]))"
    by (simp add: analyzeCase_def fst_apiFetch with_default_headers_def join_def split: option.splits)
  let ?members = "[(''case_description'', JStr d),
                   (''state'', JStr (case st of None \<Rightarrow> ''All India'' | Some s \<Rightarrow> s)),
                   (''category'', case cat of None \<Rightarrow> JNull | Some c \<Rightarrow> JStr c)]"
  have sent: "body (init (fst (analyzeCase e d st cat))) = Some (JSON_stringify (JObj ?members))"
    by (simp add: analyzeCase_def fst_apiFetch with_default_headers_def)
  have "list_all (\<lambda>(k, v). v = JNull \<or> (\<exists>s. v = JStr s)) ?members"
    by (simp split: option.splits)
  then have "JSON_read_object (JSON_stringify (JObj ?members)) = Some ?members"
    by (rule JSON_read_object_stringify)
  with sent have readback: "\<exists>text. body (init (fst (analyzeCase e d st cat))) = Some text
         \<and> JSON_read_object text = Some ?members"
    by blast
  from texts readback read_string_JSON_quote[of d rest] show ?thesis
    by blast
qed

theorem analyzeCase_request_body_witness:
  "body (init (fst (analyzeCase offline ''My neighbour cheated me'' None None))) =
     Some ''{\"case_description\":\"My neighbour cheated me\",\"state\":\"All India\",\"category\":null}''
   \<and> body (init (fst (analyzeCase offline ''x\",\"evil\":\"y'' (Some ''Goa'') (Some ''Civil'')))) =
     Some (''{\"case_description\":\"x'' @ [backslash] @ ''\",'' @ [backslash] @ ''\"evil''
           @ [backslash] @ ''\":'' @ [backslash] @ ''\"y\",\"state\":\"Goa\",\"category\":\"Civil\"}'')
   \<and> (\<exists>text. body (init (fst (analyzeCase offline ''x\",\"evil\":\"y'' (Some ''Goa'') (Some ''Civil''))))
                = Some text
         \<and> JSON_read_object text =
             Some [(''case_description'', JStr ''x\",\"evil\":\"y''), (''state'', JStr ''Goa''),
                   (''category'', JStr ''Civil'')])"
proof -
  note plain = analyzeCase_request_body[where e = offline and d = "''My neighbour cheated me''"
      and st = None and cat = None and s = "[]" and rest = "[]"]
  note tricky = analyzeCase_request_body[where e = offline and d = "''x\",\"evil\":\"y''"
      and st = "Some ''Goa''" and cat = "Some ''Civil''" and s = "[]" and rest = "[]"]
  from plain have "fst (analyzeCase offline ''My neighbour cheated me'' None None) =
     \<lparr>url = BASE_URL offline @ ''/analyze'',
      init = \<lparr>method = Some ''POST'',
               headers = Some [(''Content-Type'', ''application/json'')],
               body = Some (''{'' @ JSON_quote ''case_description'' @ '':''
                            @ JSON_quote ''My neighbour cheated me''
                            @ '','' @ JSON_quote ''state'' @ '':'' @ JSON_quote ''All India''
                            @ '','' @ JSON_quote ''category'' @ '':'' @ ''null'' @ ''}'')\<rparr>\<rparr>"
    by simp
  then have 1: "body (init (fst (analyzeCase offline ''My neighbour cheated me'' None None))) =
     Some ''{\"case_description\":\"My neighbour cheated me\",\"state\":\"All India\",\"category\":null}''"
    by (simp add: JSON_quote_def JSON_escape_def dquote_def backslash_def)
  from tricky have "fst (analyzeCase offline ''x\",\"evil\":\"y'' (Some ''Goa'') (Some ''Civil'')) =
     \<lparr>url = BASE_URL offline @ ''/analyze'',
      init = \<lparr>method = Some ''POST'',
               headers = Some [(''Content-Type'', ''application/json'')],
               body = Some (''{'' @ JSON_quote ''case_description'' @ '':''
                            @ JSON_quote ''x\",\"evil\":\"y''
                            @ '','' @ JSON_quote ''state'' @ '':'' @ JSON_quote ''Goa''
                            @ '','' @ JSON_quote ''category'' @ '':'' @ JSON_quote ''Civil''
                            @ ''}'')\<rparr>\<rparr>"
    by simp
  then have 2: "body (init (fst (analyzeCase offline ''x\",\"evil\":\"y'' (Some ''Goa'') (Some ''Civil'')))) =
     Some (''{\"case_description\":\"x'' @ [backslash] @ ''\",'' @ [backslash] @ ''\"evil''
           @ [backslash] @ ''\":'' @ [backslash] @ ''\"y\",\"state\":\"Goa\",\"category\":\"Civil\"}'')"
    by (simp add: JSON_quote_def JSON_escape_def dquote_def backslash_def)
  from tricky[THEN conjunct2, THEN conjunct2, THEN conjunct2, THEN conjunct1]
  have 3: "\<exists>text. body (init (fst (analyzeCase offline ''x\",\"evil\":\"y'' (Some ''Goa'') (Some ''Civil''))))
                = Some text
         \<and> JSON_read_object text =
             Some [(''case_description'', JStr ''x\",\"evil\":\"y''), (''state'', JStr ''Goa''),
                   (''category'', JStr ''Civil'')]"
    by simp
  from 1 2 3 show ?thesis
    by blast
qed

subsection \<open>The hooks\<close>

lemma analyze_unfold:
  "analyze e d st cat =
     ([SetLoading True, SetError None, Await (fst (analyzeCase e d st cat))]
        @ (case snd (analyzeCase e d st cat) of
             Inr result \<Rightarrow> [SetData result]
           | Inl (Exception ex) \<Rightarrow> [SetError (Some (message ex))]
           | Inl ThrownNull \<Rightarrow> []
           | Inl ThrownUndefined \<Rightarrow> [])
        @ [SetLoading False],
      (case snd (analyzeCase e d st cat) of
         Inr result \<Rightarrow> Inr result
       | Inl (Exception ex) \<Rightarrow> Inr JNull
       | Inl t \<Rightarrow> (case read_message t of Inr m \<Rightarrow> Inr JNull | Inl err \<Rightarrow> Inl (Exception err))))"
  by (simp add: analyze_def Let_def split: prod.splits sum.splits thrown.splits)


lemma analyzeCase_replying:
  "snd (analyzeCase (replying res) d st cat) =
     (if \<not> ok res then Inl (Exception (error_of_response res)) else json res)"
  by (simp add: analyzeCase_def snd_apiFetch replying_def)

lemma analyzeCase_offline:
  "snd (analyzeCase offline d st cat) = Inl (Exception (TypeError ''Failed to fetch''))"
  by (simp add: analyzeCase_def snd_apiFetch offline_def)

lemma analyzeCase_rejecting:
  "snd (analyzeCase (rejecting t) d st cat) = Inl t"
  by (simp add: analyzeCase_def snd_apiFetch rejecting_def)








text \<open>
  C10: when the request of \<open>analyze\<close> fails, the call changes only \<open>loading\<close> and
  \<open>error\<close>; \<open>data\<close> keeps its value, so the result of an earlier successful call
  stays beside the new error. It is \<open>reset\<close> that clears \<open>data\<close>.
\<close>

theorem analyze_failure_keeps_data:
  "(snd (analyzeCase e d st cat) = Inl (Exception ex)
      \<longrightarrow> run_analyze s (fst (analyze e d st cat)) = s\<lparr>loading := False, error := Some (message ex)\<rparr>
        \<and> data (run_analyze s (fst (analyze e d st cat))) = data s)
   \<and> (snd (analyzeCase e0 d0 st0 cat0) = Inr r \<and> snd (analyzeCase e d st cat) = Inl (Exception ex)
      \<longrightarrow> data (run_analyze (run_analyze s (fst (analyze e0 d0 st0 cat0))) (fst (analyze e d st cat))) = r
        \<and> error (run_analyze (run_analyze s (fst (analyze e0 d0 st0 cat0))) (fst (analyze e d st cat)))
            = Some (message ex))
   \<and> run_analyze s reset = s\<lparr>data := JNull, error := None\<rparr>
   \<and> (snd (analyzeCase e d st cat) = Inl t
      \<longrightarrow> data (run_analyze s (fst (analyze e d st cat))) = data s)"
  by (auto simp: analyze_unfold run_analyze_def reset_def split: sum.splits thrown.splits)

theorem analyze_failure_keeps_data_witness:
  "run_analyze \<lparr>data = JStr ''earlier result'', loading = False, error = None\<rparr>
      (fst (analyze offline ''theft'' None None))
     = \<lparr>data = JStr ''earlier result'', loading = False, error = Some ''Failed to fetch''\<rparr>
   \<and> data (run_analyze
        (run_analyze useAnalyze_init
           (fst (analyze (replying \<lparr>status = 200, statusText = ''OK'',
              json = Inr (JObj [(''confidence_score'', JNum ''0.8'')])\<rparr>) ''theft'' None None)))
        (fst (analyze offline ''fraud'' None None)))
     = JObj [(''confidence_score'', JNum ''0.8'')]
   \<and> error (run_analyze
        (run_analyze useAnalyze_init
           (fst (analyze (replying \<lparr>status = 200, statusText = ''OK'',
              json = Inr (JObj [(''confidence_score'', JNum ''0.8'')])\<rparr>) ''theft'' None None)))
        (fst (analyze offline ''fraud'' None None)))
     = Some ''Failed to fetch''
   \<and> data (run_analyze \<lparr>data = JStr ''earlier result'', loading = False, error = None\<rparr>
        (fst (analyze (rejecting ThrownNull) ''theft'' None None)))
     = JStr ''earlier result''"
proof -
  let ?good = "replying \<lparr>status = 200, statusText = ''OK'',
          json = Inr (JObj [(''confidence_score'', JNum ''0.8'')])\<rparr>"
  let ?s = "\<lparr>data = JStr ''earlier result'', loading = False, error = None\<rparr>"
  have g: "snd (analyzeCase ?good ''theft'' None None) = Inr (JObj [(''confidence_score'', JNum ''0.8'')])"
    by (simp add: analyzeCase_replying ok_def)
  have o1: "snd (analyzeCase offline ''theft'' None None) = Inl (Exception (TypeError ''Failed to fetch''))"
    and o2: "snd (analyzeCase offline ''fraud'' None None) = Inl (Exception (TypeError ''Failed to fetch''))"
    by (rule analyzeCase_offline)+
  have n: "snd (analyzeCase (rejecting ThrownNull) ''theft'' None None) = Inl ThrownNull"
    by (rule analyzeCase_rejecting)
  show ?thesis
    using g o1 o2 n
      analyze_failure_keeps_data[where e = offline and d = "''theft''" and st = None and cat = None
        and ex = "TypeError ''Failed to fetch''" and s = ?s
        and ?e0.0 = ?good and ?d0.0 = "''theft''" and ?st0.0 = None and ?cat0.0 = None
        and r = "JObj [(''confidence_score'', JNum ''0.8'')]"
        and t = "Exception (TypeError ''Failed to fetch'')"]
      analyze_failure_keeps_data[where e = offline and d = "''fraud''" and st = None and cat = None
        and ex = "TypeError ''Failed to fetch''" and s = useAnalyze_init
        and ?e0.0 = ?good and ?d0.0 = "''theft''" and ?st0.0 = None and ?cat0.0 = None
        and r = "JObj [(''confidence_score'', JNum ''0.8'')]"
        and t = "Exception (TypeError ''Failed to fetch'')"]
      analyze_failure_keeps_data[where e = "rejecting ThrownNull" and d = "''theft''" and st = None
        and cat = None and ex = "Error []" and s = ?s
        and ?e0.0 = ?good and ?d0.0 = "''theft''" and ?st0.0 = None and ?cat0.0 = None
        and r = "JObj [(''confidence_score'', JNum ''0.8'')]" and t = ThrownNull]
    by simp
qed

section \<open>Properties of the analysis engine\<close>

subsection \<open>Aggregation by id\<close>

lemma map_key_upsert:
  assumes "\<And>a b. key (merge a b) = key a"
  shows "map key (upsert key merge ys x) =
           (if key x \<in> set (map key ys) then map key ys else map key ys @ [key x])"
  using assms by (induction ys) auto

lemma set_upsert_cases:
  assumes "distinct (map key ys)" and "en \<in> set (upsert key merge ys x)"
  shows "(en \<in> set ys \<and> key en \<noteq> key x)
       \<or> (\<exists>y\<in>set ys. key y = key x \<and> en = merge y x)
       \<or> (en = x \<and> key x \<notin> set (map key ys))"
  using assms
proof (induction ys)
  case Nil
  then show ?case by simp
next
  case (Cons y ys)
  show ?case
  proof (cases "key y = key x")
    case True
    with Cons.prems show ?thesis by (auto simp: rev_image_eqI)
  next
    case False
    with Cons show ?thesis by auto
  qed
qed

lemma key_merge_outcome: "outcome_id (outcome (merge_outcome a b)) = outcome_id (outcome a)"
  by (simp add: merge_outcome_def)

lemma aggregate_invariant:
  fixes es :: "outcome_entry list"
  defines "agg \<equiv> foldl (upsert (\<lambda>en. outcome_id (outcome en)) merge_outcome) [] es"
  shows "distinct (map (\<lambda>en. outcome_id (outcome en)) agg)
       \<and> (\<lambda>en. outcome_id (outcome en)) ` set agg = (\<lambda>en. outcome_id (outcome en)) ` set es
       \<and> (\<forall>en\<in>set agg. 1 - probability en =
            prod_list (map (\<lambda>e. 1 - probability e)
              (filter (\<lambda>e. outcome_id (outcome e) = outcome_id (outcome en)) es)))"
  unfolding agg_def
proof (induction es rule: rev_induct)
  case Nil
  show ?case by simp
next
  case (snoc x es)
  let ?key = "\<lambda>en. outcome_id (outcome en)"
  let ?acc = "foldl (upsert ?key merge_outcome) [] es"
  let ?new = "upsert ?key merge_outcome ?acc x"
  from snoc have dist: "distinct (map ?key ?acc)"
    and keys: "?key ` set ?acc = ?key ` set es"
    and probs: "\<And>en. en \<in> set ?acc \<Longrightarrow>
          1 - probability en = prod_list (map (\<lambda>e. 1 - probability e) (filter (\<lambda>e. ?key e = ?key en) es))"
    by blast+
  have mk: "map ?key ?new = (if ?key x \<in> set (map ?key ?acc) then map ?key ?acc else map ?key ?acc @ [?key x])"
    by (rule map_key_upsert) (rule key_merge_outcome)
  have d': "distinct (map ?key ?new)"
    using dist by (simp add: mk)
  have "set (map ?key ?new) = set (map ?key ?acc) \<union> {?key x}"
    by (auto simp: mk simp del: set_map)
  then have k': "?key ` set ?new = ?key ` set (es @ [x])"
    using keys by simp
  have p': "1 - probability en =
        prod_list (map (\<lambda>e. 1 - probability e) (filter (\<lambda>e. ?key e = ?key en) (es @ [x])))"
    if en: "en \<in> set ?new" for en
  proof -
    from set_upsert_cases[OF dist en]
    consider (old) "en \<in> set ?acc" "?key en \<noteq> ?key x"
      | (merged) y where "y \<in> set ?acc" "?key y = ?key x" "en = merge_outcome y x"
      | (fresh) "en = x" "?key x \<notin> set (map ?key ?acc)"
      by blast
    then show ?thesis
    proof cases
      case old
      then show ?thesis using probs[of en] by auto
    next
      case merged
      then show ?thesis using probs[of y] by (simp add: merge_outcome_def)
    next
      case fresh
      then have "?key x \<notin> ?key ` set es"
        using keys by simp
      then have "filter (\<lambda>e. ?key e = ?key x) es = []"
        by (simp add: filter_empty_conv image_iff) metis
      with fresh show ?thesis by simp
    qed
  qed
  show ?case using d' k' p' by simp
qed

lemma filter_distinct_key:
  assumes "distinct (map key xs)" and "k \<in> key ` set xs"
  shows "\<exists>a. a \<in> set xs \<and> key a = k \<and> filter (\<lambda>x. key x = k) xs = [a]"
  using assms
proof (induction xs)
  case Nil
  then show ?case by simp
next
  case (Cons x xs)
  show ?case
  proof (cases "key x = k")
    case True
    with Cons.prems have "k \<notin> key ` set xs"
      by simp
    then have "filter (\<lambda>x. key x = k) xs = []"
      by (simp add: filter_empty_conv image_iff) metis
    with True show ?thesis by simp
  next
    case False
    with Cons show ?thesis by auto
  qed
qed

lemma contributing_Nil: "contributing k [] = []"
  by (simp add: contributing_def)

lemma contributing_Cons:
  "contributing k ((oc, p, name) # cs) =
     (if outcome_id oc = k then p # contributing k cs else contributing k cs)"
  by (simp add: contributing_def)

lemma contributing_entries:
  "prod_list (map (\<lambda>e. 1 - probability e)
     (filter (\<lambda>e. outcome_id (outcome e) = k)
        (map (\<lambda>(oc, p, name). \<lparr>outcome = oc, probability = p, influencing_factors = [name]\<rparr>) cs)))
   = prod_list (map (\<lambda>p. 1 - p) (contributing k cs))"
proof (induction cs)
  case Nil
  show ?case by (simp add: contributing_Nil)
next
  case (Cons c cs)
  obtain oc p name where c: "c = (oc, p, name)"
    by (cases c)
  show ?case
    using Cons.IH by (simp add: c contributing_Cons)
qed

lemma contributing_empty_iff:
  "contributing k cs = [] \<longleftrightarrow>
     k \<notin> (\<lambda>en. outcome_id (outcome en)) `
        set (map (\<lambda>(oc, p, name). \<lparr>outcome = oc, probability = p, influencing_factors = [name]\<rparr>) cs)"
proof (induction cs)
  case Nil
  show ?case by (simp add: contributing_Nil)
next
  case (Cons c cs)
  obtain oc p name where c: "c = (oc, p, name)"
    by (cases c)
  show ?case
    using Cons.IH by (simp add: c contributing_Cons del: set_map)
qed

lemma synthesize_entries:
  "(contributing k cs = [] \<longrightarrow> filter (\<lambda>en. outcome_id (outcome en) = k) (synthesize cs) = [])
   \<and> (contributing k cs \<noteq> [] \<longrightarrow>
        (\<exists>en. filter (\<lambda>en. outcome_id (outcome en) = k) (synthesize cs) = [en]
           \<and> probability en = clamp01 (combined_probability (contributing k cs))))"
proof -
  let ?key = "\<lambda>en. outcome_id (outcome en)"
  let ?es = "map (\<lambda>(oc, p, name). \<lparr>outcome = oc, probability = p, influencing_factors = [name]\<rparr>) cs"
  let ?agg = "foldl (upsert ?key merge_outcome) [] ?es"
  let ?fin = "\<lambda>en. en\<lparr>probability := clamp01 (probability en)\<rparr>"
  have syn: "synthesize cs = map ?fin ?agg"
    by (simp add: synthesize_def)
  have flt: "filter (\<lambda>en. ?key en = k) (map ?fin ?agg) = map ?fin (filter (\<lambda>en. ?key en = k) ?agg)"
    by (simp add: filter_map o_def)
  from aggregate_invariant[of ?es]
  have dist: "distinct (map ?key ?agg)"
    and keys: "?key ` set ?agg = ?key ` set ?es"
    and probs: "\<And>en. en \<in> set ?agg \<Longrightarrow>
          1 - probability en = prod_list (map (\<lambda>e. 1 - probability e) (filter (\<lambda>e. ?key e = ?key en) ?es))"
    by blast+
  have none: "filter (\<lambda>en. ?key en = k) (synthesize cs) = []" if "contributing k cs = []"
  proof -
    from that have "k \<notin> ?key ` set ?agg"
      using keys contributing_empty_iff[of k cs] by blast
    then have "filter (\<lambda>en. ?key en = k) ?agg = []"
      by (simp add: filter_empty_conv image_iff) metis
    then show ?thesis by (simp add: syn flt)
  qed
  have one: "\<exists>en. filter (\<lambda>en. ?key en = k) (synthesize cs) = [en]
           \<and> probability en = clamp01 (combined_probability (contributing k cs))"
    if "contributing k cs \<noteq> []"
  proof -
    from that have "k \<in> ?key ` set ?agg"
      using keys contributing_empty_iff[of k cs] by blast
    from filter_distinct_key[OF dist this]
    obtain a where a: "a \<in> set ?agg" "?key a = k" "filter (\<lambda>x. ?key x = k) ?agg = [a]"
      by blast
    from probs[OF a(1)] a(2)
    have "1 - probability a = prod_list (map (\<lambda>p. 1 - p) (contributing k cs))"
      by (simp add: contributing_entries)
    then have "probability a = combined_probability (contributing k cs)"
      by (simp add: combined_probability_def algebra_simps)
    with a(3) show ?thesis
      by (simp add: syn flt)
  qed
  from none one show ?thesis by blast
qed

lemma rank_by_Nil: "rank_by before [] = []"
  by (simp add: rank_by_def)

subsection \<open>Outcome probabilities\<close>

text \<open>
  C4: the Outcome Synthesizer reports, for every outcome id that at least one planned action
  leads to (so also for two or more), a single entry, whose probability is
  \<open>1 - \<Prod>(1 - p\<^sub>i)\<close> over the contributing actions' individual probabilities, clamped to
  [0,1]; it reports no entry for an outcome id with no contributing action; and two actions
  with probabilities 0.5 and 0.4 that lead to the same outcome give 0.7.
\<close>

theorem outcome_synthesizer_combines:
  assumes "contributions_of store plan = Inr cs"
  shows "Outcome_Synthesizer store plan = Inr (synthesize cs)
       \<and> (contributing oid cs = []
            \<longrightarrow> filter (\<lambda>en. outcome_id (outcome en) = oid) (synthesize cs) = [])
       \<and> (contributing oid cs \<noteq> []
            \<longrightarrow> (\<exists>en. filter (\<lambda>en. outcome_id (outcome en) = oid) (synthesize cs) = [en]
                   \<and> probability en = clamp01 (combined_probability (contributing oid cs))))
       \<and> map probability (synthesize [(oc, 1 / 2, a), (oc, 2 / 5, b)]) = [7 / 10]"
proof -
  have stage: "Outcome_Synthesizer store plan = Inr (synthesize cs)"
    using assms by (simp add: Outcome_Synthesizer_def)
  have example: "map probability (synthesize [(oc, 1 / 2, a), (oc, 2 / 5, b)]) = [7 / 10]"
    by (simp add: synthesize_def merge_outcome_def clamp01_def)
  from stage synthesize_entries[of oid cs] example show ?thesis
    by blast
qed

theorem outcome_synthesizer_combines_witness:
  "Outcome_Synthesizer convergent_store
      [example_action ''A1'' ''File FIR'' 1, example_action ''A2'' ''Send legal notice'' 2]
     = Inr (synthesize [(example_outcome, 1 / 2, ''File FIR''),
                        (example_outcome, 2 / 5, ''Send legal notice'')])
   \<and> (\<exists>en. filter (\<lambda>en. outcome_id (outcome en) = ''OUT_1'')
              (synthesize [(example_outcome, 1 / 2, ''File FIR''),
                           (example_outcome, 2 / 5, ''Send legal notice'')]) = [en]
         \<and> probability en = 7 / 10)
   \<and> filter (\<lambda>en. outcome_id (outcome en) = ''OUT_2'')
        (synthesize [(example_outcome, 1 / 2, ''File FIR''),
                     (example_outcome, 2 / 5, ''Send legal notice'')]) = []"
proof -
  let ?plan = "[example_action ''A1'' ''File FIR'' 1, example_action ''A2'' ''Send legal notice'' 2]"
  let ?cs = "[(example_outcome, 1 / 2, ''File FIR''), (example_outcome, 2 / 5, ''Send legal notice'')]"
  have fetched: "contributions_of convergent_store ?plan = Inr ?cs"
    by (simp add: contributions_of_def convergent_store_def empty_store_def example_action_def)
  have c1: "contributing ''OUT_1'' ?cs = [1 / 2, 2 / 5]"
    by (simp add: contributing_def example_outcome_def)
  have c2: "contributing ''OUT_2'' ?cs = []"
    by (simp add: contributing_def example_outcome_def)
  have v: "clamp01 (combined_probability [1 / 2, 2 / 5]) = 7 / 10"
    by (simp add: clamp01_def combined_probability_def)
  show ?thesis
    using outcome_synthesizer_combines[OF fetched, of "''OUT_1''"]
      outcome_synthesizer_combines[OF fetched, of "''OUT_2''"] c1 c2 v
    by simp
qed

subsection \<open>The empty description\<close>

text \<open>
  C6: for the empty case description the Section Matcher, and with it the analysis, fails with
  InvalidInput, and there is no result, partial or not. The client sends the empty description
  as it is; when the answer is a 4xx response, \<open>analyzeCase\<close> rejects, and \<open>analyze\<close>
  resolves with \<open>null\<close> and leaves \<open>data\<close> as it was.
\<close>

theorem empty_description_invalid_input:
  "Section_Matcher cfg store [] st cat = Inl InvalidInput
   \<and> analyse cfg store [] st cat = Inl InvalidInput
   \<and> (fetch e (fst (analyzeCase e [] st' cat')) = Inr res \<and> 400 \<le> status res \<and> status res \<le> 499
        \<longrightarrow> snd (analyzeCase e [] st' cat') = Inl (Exception (error_of_response res))
          \<and> snd (analyze e [] st' cat') = Inr JNull
          \<and> data (run_analyze s (fst (analyze e [] st' cat'))) = data s)"
proof -
  have m: "Section_Matcher cfg store [] st cat = Inl InvalidInput"
    by (simp add: Section_Matcher_def)
  then have a: "analyse cfg store [] st cat = Inl InvalidInput"
    by (simp add: analyse_def)
  have c: "snd (analyzeCase e [] st' cat') = Inl (Exception (error_of_response res))
          \<and> snd (analyze e [] st' cat') = Inr JNull
          \<and> data (run_analyze s (fst (analyze e [] st' cat'))) = data s"
    if "fetch e (fst (analyzeCase e [] st' cat')) = Inr res" "400 \<le> status res" "status res \<le> 499"
  proof -
    from that have "\<not> ok res"
      by (simp add: ok_def)
    with that(1) have r: "snd (analyzeCase e [] st' cat') = Inl (Exception (error_of_response res))"
      unfolding analyzeCase_def by (rule apiFetch_not_ok)
    then show ?thesis
      by (simp add: analyze_unfold run_analyze_def)
  qed
  from m a c show ?thesis by blast
qed

theorem empty_description_invalid_input_witness:
  "analyse example_config empty_store [] None None = Inl InvalidInput
   \<and> snd (analyzeCase (replying \<lparr>status = 422, statusText = ''Unprocessable Entity'',
          json = Inr (JObj [(''detail'', JStr ''case_description must not be empty'')])\<rparr>) [] None None)
       = Inl (Exception (Error ''case_description must not be empty''))
   \<and> data (run_analyze useAnalyze_init
        (fst (analyze (replying \<lparr>status = 422, statusText = ''Unprocessable Entity'',
          json = Inr (JObj [(''detail'', JStr ''case_description must not be empty'')])\<rparr>) [] None None)))
       = JNull"
proof -
  let ?res = "\<lparr>status = 422, statusText = ''Unprocessable Entity'',
          json = Inr (JObj [(''detail'', JStr ''case_description must not be empty'')])\<rparr>"
  have sent: "fetch (replying ?res) (fst (analyzeCase (replying ?res) [] None None)) = Inr ?res"
    by (simp add: replying_def)
  have msg: "error_of_response ?res = Error ''case_description must not be empty''"
    by (simp add: error_of_response_def)
  show ?thesis
    using sent msg
      empty_description_invalid_input[where cfg = example_config and store = empty_store
        and st = None and cat = None and e = "replying ?res" and st' = None and cat' = None
        and res = ?res and s = useAnalyze_init]
    by (simp add: useAnalyze_init_def)
qed

subsection \<open>The reasoning trace\<close>

text \<open>
  Every result carries the four steps of the stages, numbered 1 to 4 in this order. (Its
  confidence score is whatever the configured combination yields, unless nothing matched.)
\<close>

lemma reasoning_trace_steps:
  assumes "analyse cfg store description st cat = Inr r"
  shows "map step (reasoning_trace r) = [1, 2, 3, 4]
       \<and> map step_kind (reasoning_trace r) = [Match, Aggregate, Plan, Synthesize]"
  using assms
  by (auto simp: analyse_def record_step_def Let_def split: sum.splits prod.splits)

subsection \<open>No match\<close>

text \<open>
  C8: for a non-empty case description that matches no stored section (the Section Matcher
  returns the empty sequence), the analysis succeeds, with no matched sections, an empty
  action plan and a confidence score of 0 (and no case types, evidence or outcomes either).
\<close>

theorem no_match_empty_result:
  assumes "description \<noteq> []"
    and "Section_Matcher cfg store description st cat = Inr []"
  shows "\<exists>r. analyse cfg store description st cat = Inr r
           \<and> matched_sections r = [] \<and> action_plan r = [] \<and> confidence_score r = 0
           \<and> case_types r = [] \<and> evidence_checklist r = [] \<and> outcome_probabilities r = []"
proof -
  have agg: "Context_Aggregator store [] = Inr ([], [])"
    by (simp add: Context_Aggregator_def)
  have plan: "Action_Planner store [] = Inr []"
    by (simp add: Action_Planner_def rank_by_Nil renumber_def)
  have syn: "Outcome_Synthesizer store [] = Inr []"
    by (simp add: Outcome_Synthesizer_def contributions_of_def synthesize_def)
  have conf: "derive_confidence cfg
      (record_step (record_step (record_step (record_step [] Match d1 0 []) Aggregate d2 0 [])
         Plan d3 0 []) Synthesize d4 0 []) = 0" for d1 d2 d3 d4
    by (simp add: derive_confidence_def record_step_def)
  show ?thesis
    using assms(2) by (simp add: analyse_def agg plan syn conf Let_def)
qed

theorem no_match_empty_result_witness:
  "''my dog ate my homework'' \<noteq> []
   \<and> Section_Matcher example_config empty_store ''my dog ate my homework'' None None = Inr []
   \<and> (\<exists>r. analyse example_config empty_store ''my dog ate my homework'' None None = Inr r
           \<and> matched_sections r = [] \<and> action_plan r = [] \<and> confidence_score r = 0
           \<and> case_types r = [] \<and> evidence_checklist r = [] \<and> outcome_probabilities r = [])"
proof -
  have ne: "''my dog ate my homework'' \<noteq> []"
    by simp
  have m: "Section_Matcher example_config empty_store ''my dog ate my homework'' None None = Inr []"
    by (simp add: Section_Matcher_def empty_store_def rank_by_Nil)
  from ne m no_match_empty_result[OF ne m] show ?thesis
    by blast
qed

end
